theory Spec2Isabelle
  imports Main "HOL-Library.AList"
begin

section \<open>The operator graph builder of \<open>nvidia/dali/ops.py\<close>\<close>

text \<open>
  The module builds a deferred-execution graph: every call of an operator records an
  operator instance with a fresh id, fills a copy of the operator's spec and mints symbolic
  output handles. Exceptions are values of a sum type, the global id counter is passed
  explicitly, and the objects of the backend module (the spec and the schema of an operator)
  are the parameters of the model.
\<close>

subsection \<open>Python values, handles and exceptions\<close>

text \<open>
  Modelled from the spec: \<open>TensorReference\<close> is imported from \<open>nvidia.dali.tensor\<close>;
  a handle is the triple of a name, a device and the id of the instance that produced it.
\<close>

record TensorReference =
  tr_name :: string
  tr_device :: string
  tr_source :: nat

datatype pyval =
    PyNone
  | PyBool bool
  | PyInt int
  | PyStr string
  | PyList "pyval list"
  | PyTensor TensorReference
  | PyObject string

text \<open>\<open>type(v).__name__\<close>; an object of any other class carries the name of its class.\<close>

fun type_name :: "pyval \<Rightarrow> string" where
  "type_name PyNone = ''NoneType''"
| "type_name (PyBool b) = ''bool''"
| "type_name (PyInt i) = ''int''"
| "type_name (PyStr s) = ''str''"
| "type_name (PyList xs) = ''list''"
| "type_name (PyTensor t) = ''TensorReference''"
| "type_name (PyObject c) = c"

text \<open>
  The exceptions of the module, each with its message. \<open>UnboundLocalError\<close> is raised by
  the interpreter when a local variable is read before it is bound, and carries the name of
  the variable.
\<close>

datatype error =
    TypeError string
  | RuntimeError string
  | ValueError string
  | UnboundLocalError string

subsection \<open>Decimal rendering of integers\<close>

definition digit_char :: "nat \<Rightarrow> char" where
  "digit_char d = char_of (48 + d)"

fun str_nat :: "nat \<Rightarrow> string" where
  "str_nat n = (if n < 10 then [digit_char n] else str_nat (n div 10) @ [digit_char (n mod 10)])"

declare str_nat.simps [simp del]

text \<open>\<open>str(i)\<close> and \<open>"{}".format(i)\<close> of a Python integer.\<close>

definition str_int :: "int \<Rightarrow> string" where
  "str_int i = (if i < 0 then CHR ''-'' # str_nat (nat (- i)) else str_nat (nat i))"

text \<open>A line break inside a triple-quoted literal, with the indentation of the next line.\<close>

definition nl :: "nat \<Rightarrow> string" where
  "nl k = CHR 0x0A # replicate k CHR '' ''"

subsection \<open>The binding of keyword arguments\<close>

text \<open>
  A call \<open>f(a, ..., **kwargs)\<close> fills the named parameters of \<open>f\<close> from the positional
  arguments. A keyword that names one of them is then refused by the interpreter, before
  the body of \<open>f\<close> runs: it raises \<open>TypeError\<close> for the first such keyword, with the
  message of CPython 3 (before 3.10, which puts the qualified name of the function).
\<close>

definition msg_multiple_values :: "string \<Rightarrow> string \<Rightarrow> string" where
  "msg_multiple_values f k =
     f @ ''() got multiple values for argument '' @ [CHR 0x27] @ k @ [CHR 0x27]"

definition bind_keywords :: "string \<Rightarrow> string list \<Rightarrow> (string \<times> 'v) list \<Rightarrow> error option" where
  "bind_keywords f params kwargs =
     (case filter (\<lambda>k. k \<in> set params) (map fst kwargs) of
        [] \<Rightarrow> None
      | k # _ \<Rightarrow> Some (TypeError (msg_multiple_values f k)))"

subsection \<open>The spec and the schema of an operator\<close>

text \<open>
  Modelled from the spec: \<open>OpSpec\<close> is a class of the backend module. It holds the kind
  name, the arguments as an ordered mapping (insertion order kept, the last write of a key
  wins), and the ordered sequences of inputs, argument inputs and outputs.
\<close>

record OpSpec =
  spec_name :: string
  spec_args :: "(string \<times> pyval) list"
  spec_inputs :: "(string \<times> string) list"
  spec_argument_inputs :: "(string \<times> string) list"
  spec_outputs :: "(string \<times> string) list"

definition new_OpSpec :: "string \<Rightarrow> OpSpec" where
  "new_OpSpec kind = \<lparr>spec_name = kind, spec_args = [], spec_inputs = [],
     spec_argument_inputs = [], spec_outputs = []\<rparr>"

definition AddArg :: "string \<Rightarrow> pyval \<Rightarrow> OpSpec \<Rightarrow> OpSpec" where
  "AddArg k v s = s\<lparr>spec_args := AList.update k v (spec_args s)\<rparr>"

definition AddInput :: "string \<Rightarrow> string \<Rightarrow> OpSpec \<Rightarrow> OpSpec" where
  "AddInput n d s = s\<lparr>spec_inputs := spec_inputs s @ [(n, d)]\<rparr>"

definition AddArgumentInput :: "string \<Rightarrow> string \<Rightarrow> OpSpec \<Rightarrow> OpSpec" where
  "AddArgumentInput k n s = s\<lparr>spec_argument_inputs := spec_argument_inputs s @ [(k, n)]\<rparr>"

definition AddOutput :: "string \<Rightarrow> string \<Rightarrow> OpSpec \<Rightarrow> OpSpec" where
  "AddOutput n d s = s\<lparr>spec_outputs := spec_outputs s @ [(n, d)]\<rparr>"

text \<open>
  Modelled from the spec: the schema of an operator kind comes from the registry of the
  backend. It gives the bounds on the number of positional inputs, the output count of a
  spec (which may fail) and the validation of the arguments of a spec.
\<close>

record OpSchema =
  MinNumInput :: int
  MaxNumInput :: int
  CalculateOutputs :: "OpSpec \<Rightarrow> error + int"
  CheckArgs :: "OpSpec \<Rightarrow> error option"

subsection \<open>The id counter\<close>

text \<open>
  \<open>_OpCounter._op_count\<close> is one \<open>itertools.count(0)\<close> shared by the whole process; the
  state of the model is the next value it yields. \<open>OpCounter\<close> takes the next id.
\<close>

definition OpCounter :: "nat \<Rightarrow> nat \<times> nat" where
  "OpCounter c = (c, Suc c)"

subsection \<open>Operators and operator instances\<close>

text \<open>
  What an instance reads of the operator that built it: the name of its class, its spec
  template, its schema and its device. The device is whatever value the caller passed.
\<close>

record Operator =
  op_name :: string
  op_spec :: OpSpec
  op_schema :: OpSchema
  op_device :: pyval

record OperatorInstance =
  inst_id :: nat
  inst_inputs :: "pyval list"
  inst_outputs :: "TensorReference list"
  inst_op :: Operator
  inst_spec :: OpSpec
  inst_name :: pyval

text \<open>The messages of the exceptions that the constructor of an instance raises.\<close>

definition msg_expected_tensor :: "nat \<Rightarrow> string \<Rightarrow> string" where
  "msg_expected_tensor k ty = ''Expected inputs of type'' @ nl k @
     ''TensorReference. Received'' @ nl k @ ''input type '' @ ty"

definition msg_expected_list :: "string \<Rightarrow> string" where
  "msg_expected_list ty = ''Expected inputs of type list of'' @ nl 32 @
     ''TensorReference. Received'' @ nl 32 @ ''input type '' @ ty"

definition msg_same_length :: "nat \<Rightarrow> nat \<Rightarrow> string" where
  "msg_same_length len got = ''Expected input lists'' @ nl 36 @ ''to have the same length'' @
     nl 36 @ ''('' @ str_nat len @ ''). Received list of'' @ nl 36 @ ''length '' @ str_nat got"

definition msg_tensor_or_list :: "string \<Rightarrow> string" where
  "msg_tensor_or_list ty = ''Expected inputs of type TensorReference or list of'' @ nl 20 @
     ''TensorReference. Received input type '' @ ty"

text \<open>The loop over the inputs when the first one is a handle.\<close>

fun add_tensor_inputs :: "pyval list \<Rightarrow> OpSpec \<Rightarrow> error + OpSpec" where
  "add_tensor_inputs [] s = Inr s"
| "add_tensor_inputs (inp # rest) s =
     (case inp of
        PyTensor t \<Rightarrow> add_tensor_inputs rest (AddInput (tr_name t) (tr_device t) s)
      | _ \<Rightarrow> Inl (TypeError (msg_expected_tensor 28 (type_name inp))))"

text \<open>
  The inner loop of the input sets: for one index \<open>i\<close>, over all the inputs. The length is
  checked before the element is read, so \<open>xs ! i\<close> is read in range.
\<close>

fun add_input_set_row :: "nat \<Rightarrow> nat \<Rightarrow> pyval list \<Rightarrow> OpSpec \<Rightarrow> error + OpSpec" where
  "add_input_set_row len i [] s = Inr s"
| "add_input_set_row len i (inp # rest) s =
     (case inp of
        PyList xs \<Rightarrow>
          if length xs \<noteq> len then Inl (RuntimeError (msg_same_length len (length xs)))
          else (case xs ! i of
                  PyTensor t \<Rightarrow>
                    add_input_set_row len i rest (AddInput (tr_name t) (tr_device t) s)
                | v \<Rightarrow> Inl (TypeError (msg_expected_tensor 32 (type_name v))))
      | _ \<Rightarrow> Inl (TypeError (msg_expected_list (type_name inp))))"

text \<open>The outer loop, over the indices \<open>range(length)\<close>.\<close>

fun add_input_sets :: "nat \<Rightarrow> nat list \<Rightarrow> pyval list \<Rightarrow> OpSpec \<Rightarrow> error + OpSpec" where
  "add_input_sets len [] inputs s = Inr s"
| "add_input_sets len (i # is) inputs s =
     (case add_input_set_row len i inputs s of
        Inl e \<Rightarrow> Inl e
      | Inr s' \<Rightarrow> add_input_sets len is inputs s')"

text \<open>
  The block \<open># Add inputs\<close>. Beside the spec it returns what the loop variable \<open>inp\<close> is
  bound to afterwards, which the next block reads: nothing when no loop body ran.
\<close>

definition add_inputs :: "pyval list \<Rightarrow> OpSpec \<Rightarrow> error + (OpSpec \<times> pyval option)" where
  "add_inputs inputs s =
     (case inputs of
        [] \<Rightarrow> Inr (s, None)
      | first # _ \<Rightarrow>
          (case first of
             PyTensor t \<Rightarrow>
               (case add_tensor_inputs inputs s of
                  Inl e \<Rightarrow> Inl e
                | Inr s' \<Rightarrow> Inr (s', Some (last inputs)))
           | PyList xs \<Rightarrow>
               (case add_input_sets (length xs) [0..<length xs] inputs s of
                  Inl e \<Rightarrow> Inl e
                | Inr s' \<Rightarrow>
                    Inr (AddArg ''num_input_sets'' (PyInt (int (length xs))) s',
                         if length xs = 0 then None else Some (last inputs)))
           | _ \<Rightarrow> Inl (TypeError (msg_tensor_or_list (type_name first)))))"

text \<open>
  The block \<open># Argument inputs\<close>, over the keyword arguments in their order. The message
  of its \<open>TypeError\<close> is formatted from the variable \<open>inp\<close> of the loops above.
\<close>

fun add_argument_inputs ::
  "pyval option \<Rightarrow> (string \<times> pyval) list \<Rightarrow> OpSpec \<times> pyval list \<Rightarrow> error + (OpSpec \<times> pyval list)"
where
  "add_argument_inputs inp [] acc = Inr acc"
| "add_argument_inputs inp ((k, v) # rest) (s, ins) =
     (if k = ''name'' then add_argument_inputs inp rest (s, ins)
      else (case v of
              PyTensor t \<Rightarrow>
                add_argument_inputs inp rest (AddArgumentInput k (tr_name t) s, ins @ [v])
            | _ \<Rightarrow>
                (case inp of
                   None \<Rightarrow> Inl (UnboundLocalError ''inp'')
                 | Some x \<Rightarrow> Inl (TypeError (msg_expected_tensor 28 (type_name x))))))"

text \<open>
  \<open>_OperatorInstance.__init__(self, inputs, op, **kwargs)\<close>. Once the arguments are
  bound, the body takes the id first, so the counter has advanced whether the body returns
  or raises.
\<close>

definition OperatorInstance_init ::
  "pyval list \<Rightarrow> Operator \<Rightarrow> (string \<times> pyval) list \<Rightarrow> nat \<Rightarrow> (error + OperatorInstance) \<times> nat"
where
  "OperatorInstance_init inputs op kwargs c =
     (case bind_keywords ''__init__'' [''self'', ''inputs'', ''op''] kwargs of
        Some e \<Rightarrow> (Inl e, c)
      | None \<Rightarrow>
          (let (i, c') = OpCounter c;
               nm = (case map_of kwargs ''name'' of
                       Some v \<Rightarrow> v
                     | None \<Rightarrow> PyStr (''__'' @ op_name op @ ''_'' @ str_nat i))
           in case add_inputs inputs (op_spec op) of
                Inl e \<Rightarrow> (Inl e, c')
              | Inr (s, inp) \<Rightarrow>
                  (case add_argument_inputs inp kwargs (s, inputs) of
                     Inl e \<Rightarrow> (Inl e, c')
                   | Inr (s', ins) \<Rightarrow>
                       (Inr \<lparr>inst_id = i, inst_inputs = ins, inst_outputs = [],
                             inst_op = op, inst_spec = s', inst_name = nm\<rparr>, c'))))"

definition check_args :: "OperatorInstance \<Rightarrow> error option" where
  "check_args inst = CheckArgs (op_schema (inst_op inst)) (inst_spec inst)"

definition output_name :: "string \<Rightarrow> nat \<Rightarrow> nat \<Rightarrow> string" where
  "output_name kind i k = kind @ ''_id_'' @ str_nat i @ ''_output_'' @ str_nat k"

definition append_output :: "TensorReference \<Rightarrow> OperatorInstance \<Rightarrow> OperatorInstance" where
  "append_output t inst = inst\<lparr>inst_outputs := inst_outputs inst @ [t]\<rparr>"

text \<open>The loop of \<open>generate_outputs\<close> over the indices \<open>range(num_output)\<close>.\<close>

fun add_outputs :: "string \<Rightarrow> nat list \<Rightarrow> OperatorInstance \<Rightarrow> OperatorInstance" where
  "add_outputs dev [] inst = inst"
| "add_outputs dev (k # ks) inst =
     (let t = \<lparr>tr_name = output_name (op_name (inst_op inst)) (inst_id inst) k,
               tr_device = dev, tr_source = inst_id inst\<rparr>
      in add_outputs dev ks
           (append_output t
              (inst\<lparr>inst_spec := AddOutput (tr_name t) (tr_device t) (inst_spec inst)\<rparr>)))"

definition output_device :: "pyval \<Rightarrow> string" where
  "output_device d = (if d = PyStr ''gpu'' \<or> d = PyStr ''mixed'' then ''gpu'' else ''cpu'')"

definition generate_outputs :: "OperatorInstance \<Rightarrow> error + OperatorInstance" where
  "generate_outputs inst =
     (case CalculateOutputs (op_schema (inst_op inst)) (inst_spec inst) of
        Inl e \<Rightarrow> Inl e
      | Inr num_output \<Rightarrow>
          Inr (add_outputs (output_device (op_device (inst_op inst))) [0..<nat num_output] inst))"

subsection \<open>The operator classes made by \<open>python_op_factory\<close>\<close>

text \<open>The loop \<open># Store the specified arguments\<close> of \<open>Operator.__init__\<close>.\<close>

fun store_args :: "(string \<times> pyval) list \<Rightarrow> OpSpec \<Rightarrow> error + OpSpec" where
  "store_args [] s = Inr s"
| "store_args ((key, value) # rest) s =
     (if value = PyList []
      then Inl (RuntimeError ''List arguments need to have at least 1 element.'')
      else store_args rest (AddArg key value s))"

text \<open>
  \<open>Operator.__init__(self, **kwargs)\<close> of the class that
  \<open>python_op_factory(name, op_device)\<close> returns;
  \<open>default_device\<close> is the \<open>op_device\<close> of the factory. The schema is what the registry
  of the backend holds for \<open>name\<close>.
\<close>

definition Operator_init ::
  "string \<Rightarrow> string \<Rightarrow> OpSchema \<Rightarrow> (string \<times> pyval) list \<Rightarrow> error + Operator"
where
  "Operator_init name default_device schema kwargs =
     (case bind_keywords ''__init__'' [''self''] kwargs of
        Some e \<Rightarrow> Inl e
      | None \<Rightarrow>
          (let s0 = new_OpSpec name;
               (dev, s1) =
                 (case map_of kwargs ''device'' of
                    Some v \<Rightarrow> (v, s0)
                  | None \<Rightarrow>
                      (PyStr default_device, AddArg ''device'' (PyStr default_device) s0))
           in case store_args kwargs s1 of
                Inl e \<Rightarrow> Inl e
              | Inr s2 \<Rightarrow>
                  Inr \<lparr>op_name = name, op_spec = s2, op_schema = schema, op_device = dev\<rparr>))"

definition msg_arity :: "nat \<Rightarrow> string \<Rightarrow> int \<Rightarrow> int \<Rightarrow> nat \<Rightarrow> string" where
  "msg_arity k name lo hi n = ''Operator '' @ name @ '' expects ['' @ str_int lo @ '','' @
     nl k @ str_int hi @ ''] inputs, but received '' @ str_nat n"

text \<open>
  \<open>Operator.__call__(self, *inputs, **kwargs)\<close>. It returns the only output, or the list
  of the outputs; the instance, which every output refers to as its source, is returned
  beside it.
\<close>

definition Operator_call ::
  "Operator \<Rightarrow> pyval list \<Rightarrow> (string \<times> pyval) list \<Rightarrow> nat
     \<Rightarrow> (error + pyval \<times> OperatorInstance) \<times> nat"
where
  "Operator_call self inputs kwargs c =
     (case bind_keywords ''__call__'' [''self''] kwargs of
        Some e \<Rightarrow> (Inl e, c)
      | None \<Rightarrow>
          if int (length inputs) > MaxNumInput (op_schema self)
             \<or> int (length inputs) < MinNumInput (op_schema self)
          then (Inl (ValueError (msg_arity 20 (op_name self) (MinNumInput (op_schema self))
                       (MaxNumInput (op_schema self)) (length inputs))), c)
          else (case OperatorInstance_init inputs self kwargs c of
                  (Inl e, c') \<Rightarrow> (Inl e, c')
                | (Inr op_instance, c') \<Rightarrow>
                    (case generate_outputs op_instance of
                       Inl e \<Rightarrow> (Inl e, c')
                     | Inr inst \<Rightarrow>
                         (Inr (case inst_outputs inst of
                                 [t] \<Rightarrow> PyTensor t
                               | ts \<Rightarrow> PyList (map PyTensor ts), inst), c'))))"

subsection \<open>The reader with named outputs\<close>

record TFRecordReader =
  tf_path :: pyval
  tf_index_path :: pyval
  tf_schema :: OpSchema
  tf_spec :: OpSpec
  tf_device :: string
  tf_features :: "(string \<times> pyval) list"

definition as_list :: "pyval \<Rightarrow> pyval" where
  "as_list v = (case v of PyList xs \<Rightarrow> v | _ \<Rightarrow> PyList [v])"

fun add_args :: "(string \<times> pyval) list \<Rightarrow> OpSpec \<Rightarrow> OpSpec" where
  "add_args [] s = s"
| "add_args ((key, value) # rest) s = add_args rest (AddArg key value s)"

text \<open>
  \<open>TFRecordReader.__init__(self, path, index_path, features, **kwargs)\<close>; the schema is
  what the registry holds for \<open>_TFRecordReader\<close>. The features are a dictionary, taken in
  its iteration order.
\<close>

definition TFRecordReader_init ::
  "OpSchema \<Rightarrow> pyval \<Rightarrow> pyval \<Rightarrow> (string \<times> pyval) list \<Rightarrow> (string \<times> pyval) list
     \<Rightarrow> error + TFRecordReader"
where
  "TFRecordReader_init schema path index_path features kwargs =
     (case bind_keywords ''__init__'' [''self'', ''path'', ''index_path'', ''features''] kwargs of
        Some e \<Rightarrow> Inl e
      | None \<Rightarrow>
          Inr \<lparr>tf_path = as_list path, tf_index_path = as_list index_path,
               tf_schema = schema,
               tf_spec = add_args kwargs
                 (AddArg ''index_path'' (as_list index_path)
                    (AddArg ''path'' (as_list path) (new_OpSpec ''_TFRecordReader''))),
               tf_device = ''cpu'', tf_features = features\<rparr>)"

text \<open>What an instance reads of a reader, whose class is named \<open>TFRecordReader\<close>.\<close>

definition TFRecordReader_op :: "TFRecordReader \<Rightarrow> Operator" where
  "TFRecordReader_op self = \<lparr>op_name = ''TFRecordReader'', op_spec = tf_spec self,
     op_schema = tf_schema self, op_device = PyStr (tf_device self)\<rparr>"

text \<open>
  The loop of \<open>TFRecordReader.__call__\<close> over \<open>enumerate(self._features.items())\<close>; its
  state is the instance, the dictionary \<open>outputs\<close> and the two lists.
\<close>

fun add_features ::
  "string \<Rightarrow> nat \<Rightarrow> (string \<times> pyval) list
     \<Rightarrow> OperatorInstance \<times> (string \<times> TensorReference) list \<times> string list \<times> pyval list
     \<Rightarrow> OperatorInstance \<times> (string \<times> TensorReference) list \<times> string list \<times> pyval list"
where
  "add_features dev i [] st = st"
| "add_features dev i ((feature_name, feature) # rest) (inst, outputs, feature_names, features) =
     (let t = \<lparr>tr_name = output_name ''_TFRecordReader'' (inst_id inst) i,
               tr_device = dev, tr_source = inst_id inst\<rparr>
      in add_features dev (Suc i) rest
           (append_output t
              (inst\<lparr>inst_spec := AddOutput (tr_name t) (tr_device t) (inst_spec inst)\<rparr>),
            AList.update feature_name t outputs,
            feature_names @ [feature_name],
            features @ [feature]))"

text \<open>
  \<open>TFRecordReader.__call__(self, *inputs, **kwargs)\<close> returns the dictionary \<open>outputs\<close>;
  the instance, which every output refers to as its source, is returned beside it.
\<close>

definition TFRecordReader_call ::
  "TFRecordReader \<Rightarrow> pyval list \<Rightarrow> (string \<times> pyval) list \<Rightarrow> nat
     \<Rightarrow> (error + (string \<times> TensorReference) list \<times> OperatorInstance) \<times> nat"
where
  "TFRecordReader_call self inputs kwargs c =
     (case bind_keywords ''__call__'' [''self''] kwargs of
        Some e \<Rightarrow> (Inl e, c)
      | None \<Rightarrow>
          if int (length inputs) > MaxNumInput (tf_schema self)
             \<or> int (length inputs) < MinNumInput (tf_schema self)
          then (Inl (ValueError (msg_arity 16 ''TFRecordReader'' (MinNumInput (tf_schema self))
                       (MaxNumInput (tf_schema self)) (length inputs))), c)
          else (case OperatorInstance_init inputs (TFRecordReader_op self) kwargs c of
                  (Inl e, c') \<Rightarrow> (Inl e, c')
                | (Inr op_instance, c') \<Rightarrow>
                    (case add_features (tf_device self) 0 (tf_features self)
                            (op_instance, [], [], []) of
                       (inst, outputs, feature_names, features) \<Rightarrow>
                         (Inr (outputs,
                            inst\<lparr>inst_spec :=
                              AddArg ''features'' (PyList features)
                                (AddArg ''feature_names'' (PyList (map PyStr feature_names))
                                   (inst_spec inst))\<rparr>), c'))))"

subsection \<open>Concrete inputs\<close>

text \<open>A schema with the given bounds whose output count is the constant \<open>n\<close>.\<close>

definition ex_schema :: "int \<Rightarrow> int \<Rightarrow> int \<Rightarrow> OpSchema" where
  "ex_schema lo hi n = \<lparr>MinNumInput = lo, MaxNumInput = hi,
     CalculateOutputs = (\<lambda>s. Inr n), CheckArgs = (\<lambda>s. None)\<rparr>"

text \<open>An operator of kind \<open>Resize\<close> on the device \<open>dev\<close>, and an instance of it with no input.\<close>

definition ex_op :: "pyval \<Rightarrow> OpSchema \<Rightarrow> Operator" where
  "ex_op dev sch = \<lparr>op_name = ''Resize'', op_spec = new_OpSpec ''Resize'', op_schema = sch,
     op_device = dev\<rparr>"

definition ex_inst :: "nat \<Rightarrow> Operator \<Rightarrow> OperatorInstance" where
  "ex_inst i op = \<lparr>inst_id = i, inst_inputs = [], inst_outputs = [], inst_op = op,
     inst_spec = op_spec op, inst_name = PyStr ''resize''\<rparr>"

section \<open>Properties\<close>

subsection \<open>Evaluation of the decimal rendering\<close>

lemma digit_char_numerals:
  "digit_char 0 = CHR ''0''" "digit_char 1 = CHR ''1''" "digit_char 2 = CHR ''2''"
  "digit_char 3 = CHR ''3''" "digit_char 4 = CHR ''4''" "digit_char 5 = CHR ''5''"
  "digit_char 6 = CHR ''6''" "digit_char 7 = CHR ''7''" "digit_char 8 = CHR ''8''"
  "digit_char 9 = CHR ''9''" "digit_char (Suc 0) = CHR ''1''"
  by code_simp+

lemmas str_eval = str_nat.simps str_int_def digit_char_numerals upt_rec

lemmas ex_defs = ex_schema_def ex_op_def ex_inst_def new_OpSpec_def

subsection \<open>The binding of keyword arguments\<close>

lemma bind_keywords_None:
  "bind_keywords f params kwargs = None \<longleftrightarrow> set params \<inter> fst ` set kwargs = {}"
proof -
  have e: "filter (\<lambda>k. k \<in> set params) (map fst kwargs) = []
      \<longleftrightarrow> set params \<inter> fst ` set kwargs = {}"
    by (auto simp add: filter_empty_conv)
  show ?thesis
  proof (cases "filter (\<lambda>k. k \<in> set params) (map fst kwargs)")
    case Nil
    with e show ?thesis by (simp add: bind_keywords_def)
  next
    case (Cons k ks)
    with e show ?thesis by (simp add: bind_keywords_def)
  qed
qed

lemma bind_keywords_Nil [simp]: "bind_keywords f params [] = None"
  by (simp add: bind_keywords_def)

lemma bind_keywords_Some:
  "bind_keywords f params kwargs = Some e \<Longrightarrow> \<exists>m. e = TypeError m"
  by (auto simp add: bind_keywords_def split: list.splits)

subsection \<open>Output generation\<close>

lemma add_outputs_id [simp]: "inst_id (add_outputs dev ks inst) = inst_id inst"
  by (induction ks arbitrary: inst) (simp_all add: append_output_def Let_def)

lemma add_outputs_op [simp]: "inst_op (add_outputs dev ks inst) = inst_op inst"
  by (induction ks arbitrary: inst) (simp_all add: append_output_def Let_def)

lemma add_outputs_inputs [simp]: "inst_inputs (add_outputs dev ks inst) = inst_inputs inst"
  by (induction ks arbitrary: inst) (simp_all add: append_output_def Let_def)

lemma add_outputs_name [simp]: "inst_name (add_outputs dev ks inst) = inst_name inst"
  by (induction ks arbitrary: inst) (simp_all add: append_output_def Let_def)

lemma add_outputs_outputs:
  "inst_outputs (add_outputs dev ks inst) = inst_outputs inst @
     map (\<lambda>k. \<lparr>tr_name = output_name (op_name (inst_op inst)) (inst_id inst) k,
                tr_device = dev, tr_source = inst_id inst\<rparr>) ks"
  by (induction ks arbitrary: inst) (simp_all add: append_output_def Let_def)

lemma add_outputs_spec_outputs:
  "spec_outputs (inst_spec (add_outputs dev ks inst)) = spec_outputs (inst_spec inst) @
     map (\<lambda>k. (output_name (op_name (inst_op inst)) (inst_id inst) k, dev)) ks"
  by (induction ks arbitrary: inst) (simp_all add: append_output_def AddOutput_def Let_def)

lemma add_outputs_spec_rest [simp]:
  "spec_args (inst_spec (add_outputs dev ks inst)) = spec_args (inst_spec inst)"
  "spec_inputs (inst_spec (add_outputs dev ks inst)) = spec_inputs (inst_spec inst)"
  "spec_argument_inputs (inst_spec (add_outputs dev ks inst))
     = spec_argument_inputs (inst_spec inst)"
  "spec_name (inst_spec (add_outputs dev ks inst)) = spec_name (inst_spec inst)"
  by (induction ks arbitrary: inst) (simp_all add: append_output_def AddOutput_def Let_def)

text \<open>
  C3. When the schema yields the output count \<open>n\<close> for the spec of an instance,
  \<open>generate_outputs\<close> returns, and it has appended to the outputs of the instance and to the
  outputs of its spec the handles of the indices \<open>0, ..., n - 1\<close> in order (exactly \<open>n\<close> of
  them), the \<open>i\<close>-th named \<open><kind>_id_<id>_output_<i>\<close>; the device of each is \<open>gpu\<close> when the
  device of the operator is \<open>gpu\<close> or \<open>mixed\<close>, and \<open>cpu\<close> otherwise.
\<close>

theorem generate_outputs_appends:
  assumes "CalculateOutputs (op_schema (inst_op inst)) (inst_spec inst) = Inr n"
  shows "\<exists>inst' dev. generate_outputs inst = Inr inst'
     \<and> dev = (if op_device (inst_op inst) = PyStr ''gpu''
                 \<or> op_device (inst_op inst) = PyStr ''mixed''
              then ''gpu'' else ''cpu'')
     \<and> inst_outputs inst' = inst_outputs inst @
         map (\<lambda>i. \<lparr>tr_name = op_name (inst_op inst) @ ''_id_'' @ str_nat (inst_id inst) @
                               ''_output_'' @ str_nat i,
                    tr_device = dev, tr_source = inst_id inst\<rparr>) [0..<nat n]
     \<and> spec_outputs (inst_spec inst') = spec_outputs (inst_spec inst) @
         map (\<lambda>i. (op_name (inst_op inst) @ ''_id_'' @ str_nat (inst_id inst) @
                      ''_output_'' @ str_nat i, dev)) [0..<nat n]
     \<and> (0 \<le> n \<longrightarrow> int (length (inst_outputs inst')) = int (length (inst_outputs inst)) + n
                \<and> int (length (spec_outputs (inst_spec inst')))
                    = int (length (spec_outputs (inst_spec inst))) + n)"
  using assms
  by (simp add: generate_outputs_def add_outputs_outputs add_outputs_spec_outputs
      output_device_def output_name_def)

theorem generate_outputs_appends_witness:
  "CalculateOutputs (op_schema (inst_op (ex_inst 7 (ex_op (PyStr ''mixed'') (ex_schema 0 1 2)))))
      (inst_spec (ex_inst 7 (ex_op (PyStr ''mixed'') (ex_schema 0 1 2)))) = Inr 2
   \<and> inst_outputs (projr (generate_outputs
        (ex_inst 7 (ex_op (PyStr ''mixed'') (ex_schema 0 1 2))))) =
      [\<lparr>tr_name = ''Resize_id_7_output_0'', tr_device = ''gpu'', tr_source = 7\<rparr>,
       \<lparr>tr_name = ''Resize_id_7_output_1'', tr_device = ''gpu'', tr_source = 7\<rparr>]
   \<and> spec_outputs (inst_spec (projr (generate_outputs
        (ex_inst 7 (ex_op (PyStr ''mixed'') (ex_schema 0 1 2)))))) =
      [(''Resize_id_7_output_0'', ''gpu''), (''Resize_id_7_output_1'', ''gpu'')]"
  using generate_outputs_appends [of "ex_inst 7 (ex_op (PyStr ''mixed'') (ex_schema 0 1 2))" 2]
  by (auto simp add: ex_defs str_eval)

subsection \<open>The constructor of an instance and the id counter\<close>

lemma OperatorInstance_init_unbound:
  assumes "bind_keywords ''__init__'' [''self'', ''inputs'', ''op''] kwargs = Some e"
  shows "OperatorInstance_init inputs op kwargs c = (Inl e, c)"
  using assms by (simp add: OperatorInstance_init_def)

lemma OperatorInstance_init_counter:
  assumes "bind_keywords ''__init__'' [''self'', ''inputs'', ''op''] kwargs = None"
  shows "snd (OperatorInstance_init inputs op kwargs c) = Suc c"
  using assms
  by (simp add: OperatorInstance_init_def OpCounter_def Let_def split: sum.splits prod.splits)

lemma OperatorInstance_init_mono: "c \<le> snd (OperatorInstance_init inputs op kwargs c)"
proof (cases "bind_keywords ''__init__'' [''self'', ''inputs'', ''op''] kwargs")
  case None
  then show ?thesis by (simp add: OperatorInstance_init_counter)
next
  case (Some e)
  then show ?thesis by (simp add: OperatorInstance_init_unbound)
qed

lemma OperatorInstance_init_fresh:
  assumes "OperatorInstance_init inputs op kwargs c = (Inr inst, c')"
  shows "inst_id inst = c" "c' = Suc c" "inst_outputs inst = []" "inst_op inst = op"
    and "bind_keywords ''__init__'' [''self'', ''inputs'', ''op''] kwargs = None"
  using assms
  by (auto simp add: OperatorInstance_init_def OpCounter_def Let_def
      split: sum.splits prod.splits option.splits)

subsection \<open>Generating the outputs twice\<close>

text \<open>
  C6, as the code has it. \<open>generate_outputs\<close> has no guard against a second call: whenever
  the schema yields a count \<open>m\<close> for the spec that the first call left, the second call
  returns as well and appends \<open>m\<close> more handles, numbered from 0 again, to the instance and
  to its spec; when both counts are positive the instance holds two handles of one name.
\<close>

theorem generate_outputs_again:
  assumes "CalculateOutputs (op_schema (inst_op inst)) (inst_spec inst) = Inr n"
    and "generate_outputs inst = Inr inst1"
    and "CalculateOutputs (op_schema (inst_op inst)) (inst_spec inst1) = Inr m"
  shows "\<exists>inst2. generate_outputs inst1 = Inr inst2
     \<and> map tr_name (inst_outputs inst2) = map tr_name (inst_outputs inst) @
         map (\<lambda>i. op_name (inst_op inst) @ ''_id_'' @ str_nat (inst_id inst) @
                      ''_output_'' @ str_nat i) ([0..<nat n] @ [0..<nat m])
     \<and> map fst (spec_outputs (inst_spec inst2)) = map fst (spec_outputs (inst_spec inst)) @
         map (\<lambda>i. op_name (inst_op inst) @ ''_id_'' @ str_nat (inst_id inst) @
                      ''_output_'' @ str_nat i) ([0..<nat n] @ [0..<nat m])
     \<and> (0 < n \<and> 0 < m \<longrightarrow> \<not> distinct (map tr_name (inst_outputs inst2)))"
proof -
  let ?dev = "output_device (op_device (inst_op inst))"
  from assms(1,2) have i1: "inst1 = add_outputs ?dev [0..<nat n] inst"
    by (simp add: generate_outputs_def)
  with assms(3) have g2: "generate_outputs inst1 = Inr (add_outputs ?dev [0..<nat m] inst1)"
    by (simp add: generate_outputs_def)
  let ?nm = "\<lambda>i. op_name (inst_op inst) @ ''_id_'' @ str_nat (inst_id inst) @ ''_output_'' @ str_nat i"
  have names: "map tr_name (inst_outputs (add_outputs ?dev [0..<nat m] inst1)) =
      map tr_name (inst_outputs inst) @ map ?nm ([0..<nat n] @ [0..<nat m])"
    by (simp add: i1 add_outputs_outputs output_name_def comp_def)
  have specs: "map fst (spec_outputs (inst_spec (add_outputs ?dev [0..<nat m] inst1))) =
      map fst (spec_outputs (inst_spec inst)) @ map ?nm ([0..<nat n] @ [0..<nat m])"
    by (simp add: i1 add_outputs_spec_outputs output_name_def comp_def)
  have dup: "\<not> distinct (map ?nm ([0..<nat n] @ [0..<nat m]))" if "0 < n" "0 < m"
  proof -
    from that have "0 \<in> set [0..<nat n]" "0 \<in> set [0..<nat m]" by auto
    then have "\<not> distinct ([0..<nat n] @ [0..<nat m])" by auto
    then show ?thesis using distinct_map by blast
  qed
  show ?thesis
    using g2 names specs dup by auto
qed

text \<open>
  The claim C6 as stated fails: on an instance that the constructor built for an operator
  with one output, the second call of \<open>generate_outputs\<close> returns too, and the instance
  then holds the output of index 0 twice.
\<close>

theorem generate_outputs_twice_counterexample:
  "\<not> isl (fst (OperatorInstance_init [] (ex_op (PyStr ''cpu'') (ex_schema 0 1 1)) [] 0))
   \<and> \<not> isl (generate_outputs (projr (fst
          (OperatorInstance_init [] (ex_op (PyStr ''cpu'') (ex_schema 0 1 1)) [] 0))))
   \<and> \<not> isl (generate_outputs (projr (generate_outputs (projr (fst
          (OperatorInstance_init [] (ex_op (PyStr ''cpu'') (ex_schema 0 1 1)) [] 0))))))
   \<and> map tr_name (inst_outputs (projr (generate_outputs (projr (generate_outputs (projr (fst
          (OperatorInstance_init [] (ex_op (PyStr ''cpu'') (ex_schema 0 1 1)) [] 0))))))))
      = [''Resize_id_0_output_0'', ''Resize_id_0_output_0'']"
  by (simp add: OperatorInstance_init_def OpCounter_def add_inputs_def generate_outputs_def
      output_device_def output_name_def append_output_def AddOutput_def Let_def ex_defs str_eval)

theorem generate_outputs_again_witness:
  "CalculateOutputs (op_schema (inst_op (ex_inst 3 (ex_op (PyStr ''cpu'') (ex_schema 0 1 1)))))
     (inst_spec (ex_inst 3 (ex_op (PyStr ''cpu'') (ex_schema 0 1 1)))) = Inr 1
   \<and> \<not> isl (generate_outputs (ex_inst 3 (ex_op (PyStr ''cpu'') (ex_schema 0 1 1))))
   \<and> map tr_name (inst_outputs (projr (generate_outputs (projr
        (generate_outputs (ex_inst 3 (ex_op (PyStr ''cpu'') (ex_schema 0 1 1))))))))
      = [''Resize_id_3_output_0'', ''Resize_id_3_output_0'']"
proof -
  let ?i = "ex_inst 3 (ex_op (PyStr ''cpu'') (ex_schema 0 1 1))"
  have a: "CalculateOutputs (op_schema (inst_op ?i)) (inst_spec ?i) = Inr 1"
    by (simp add: ex_defs)
  have b: "generate_outputs ?i = Inr (projr (generate_outputs ?i))"
    by (simp add: generate_outputs_def ex_defs)
  have c: "CalculateOutputs (op_schema (inst_op ?i)) (inst_spec (projr (generate_outputs ?i))) = Inr 1"
    by (simp add: ex_defs)
  from generate_outputs_again [OF a b c] obtain inst2 where
    g: "generate_outputs (projr (generate_outputs ?i)) = Inr inst2" and
    n: "map tr_name (inst_outputs inst2) = map tr_name (inst_outputs ?i) @
         map (\<lambda>i. op_name (inst_op ?i) @ ''_id_'' @ str_nat (inst_id ?i) @
                      ''_output_'' @ str_nat i) ([0..<nat 1] @ [0..<nat 1])"
    by blast
  have "map tr_name (inst_outputs inst2) = [''Resize_id_3_output_0'', ''Resize_id_3_output_0'']"
    using n by (simp add: ex_defs str_eval)
  moreover have "\<not> isl (generate_outputs ?i)"
    by (subst b) simp
  ultimately show ?thesis
    using a g by simp
qed

subsection \<open>Storing the arguments of an operator\<close>

lemma update_fresh: "k \<notin> fst ` set al \<Longrightarrow> AList.update k v al = al @ [(k, v)]"
  by (induction al) auto

lemma add_args_fresh:
  "distinct (map fst kw) \<Longrightarrow> fst ` set kw \<inter> fst ` set (spec_args s) = {}
     \<Longrightarrow> add_args kw s = s\<lparr>spec_args := spec_args s @ kw\<rparr>"
proof (induction kw arbitrary: s)
  case Nil
  then show ?case by simp
next
  case (Cons p kw)
  obtain k v where p: "p = (k, v)" by (cases p)
  from Cons.prems p have fresh: "k \<notin> fst ` set (spec_args s)" by auto
  have "add_args kw (AddArg k v s) = (AddArg k v s)\<lparr>spec_args := spec_args (AddArg k v s) @ kw\<rparr>"
  proof (rule Cons.IH)
    show "distinct (map fst kw)" using Cons.prems by simp
    show "fst ` set kw \<inter> fst ` set (spec_args (AddArg k v s)) = {}"
      using Cons.prems p fresh by (auto simp add: AddArg_def update_fresh)
  qed
  then show ?case
    using p fresh by (simp add: AddArg_def update_fresh)
qed

lemma store_args_empty_list:
  "PyList [] \<in> snd ` set kw \<Longrightarrow>
     store_args kw s = Inl (RuntimeError ''List arguments need to have at least 1 element.'')"
  by (induction kw arbitrary: s) force+

lemma store_args_add_args:
  "PyList [] \<notin> snd ` set kw \<Longrightarrow> store_args kw s = Inr (add_args kw s)"
  by (induction kw arbitrary: s) auto

lemma Operator_init_bound:
  "''self'' \<notin> fst ` set kwargs \<Longrightarrow> bind_keywords ''__init__'' [''self''] kwargs = None"
  by (simp add: bind_keywords_None)

lemma Operator_init_self:
  assumes "''self'' \<in> fst ` set kwargs"
  shows "\<exists>m. Operator_init name dd sch kwargs = Inl (TypeError m)"
proof -
  from assms have "bind_keywords ''__init__'' [''self''] kwargs \<noteq> None"
    by (simp add: bind_keywords_None)
  then obtain e where e: "bind_keywords ''__init__'' [''self''] kwargs = Some e"
    by blast
  from bind_keywords_Some [OF e] e show ?thesis
    by (auto simp add: Operator_init_def)
qed

lemma Operator_init_ok:
  assumes "distinct (map fst kwargs)" and "PyList [] \<notin> snd ` set kwargs"
    and "''self'' \<notin> fst ` set kwargs"
  shows "Operator_init name dd sch kwargs =
     Inr \<lparr>op_name = name,
          op_spec = (new_OpSpec name)\<lparr>spec_args :=
            (if ''device'' \<in> fst ` set kwargs then kwargs else (''device'', PyStr dd) # kwargs)\<rparr>,
          op_schema = sch,
          op_device = (case map_of kwargs ''device'' of Some v \<Rightarrow> v | None \<Rightarrow> PyStr dd)\<rparr>"
proof (cases "map_of kwargs ''device''")
  case None
  then have nk: "''device'' \<notin> fst ` set kwargs" by (simp add: map_of_eq_None_iff)
  have "add_args kwargs (AddArg ''device'' (PyStr dd) (new_OpSpec name)) =
      (AddArg ''device'' (PyStr dd) (new_OpSpec name))\<lparr>spec_args :=
         spec_args (AddArg ''device'' (PyStr dd) (new_OpSpec name)) @ kwargs\<rparr>"
    using assms(1) nk by (intro add_args_fresh) (auto simp add: AddArg_def new_OpSpec_def)
  then show ?thesis
    using None nk assms(2) Operator_init_bound [OF assms(3)]
    by (simp add: Operator_init_def store_args_add_args AddArg_def new_OpSpec_def)
next
  case (Some v)
  then have k: "''device'' \<in> fst ` set kwargs" by (metis map_of_eq_None_iff option.distinct(1))
  have "add_args kwargs (new_OpSpec name) =
      (new_OpSpec name)\<lparr>spec_args := spec_args (new_OpSpec name) @ kwargs\<rparr>"
    using assms(1) by (intro add_args_fresh) (auto simp add: new_OpSpec_def)
  then show ?thesis
    using Some k assms(2) Operator_init_bound [OF assms(3)]
    by (simp add: Operator_init_def store_args_add_args new_OpSpec_def)
qed

lemma Operator_init_empty_list:
  assumes "''self'' \<notin> fst ` set kwargs" and "PyList [] \<in> snd ` set kwargs"
  shows "Operator_init name dd sch kwargs =
     Inl (RuntimeError ''List arguments need to have at least 1 element.'')"
  using assms(2) Operator_init_bound [OF assms(1)]
  by (simp add: Operator_init_def store_args_empty_list Let_def split: option.splits)


text \<open>
  C5, as the code has it. The keyword arguments of a factory are a dictionary, so their keys
  are distinct. When \<open>device\<close> is absent, the default device of the factory becomes the
  device of the operator and is recorded as the first plain argument of the spec, before the
  keyword arguments. When \<open>device\<close> is present, its value becomes the device of the operator,
  and the loop that stores every keyword argument records it on the spec as well: the
  arguments of the spec are then exactly the keyword arguments.
\<close>

theorem Operator_init_device:
  assumes "distinct (map fst kwargs)" and "Operator_init name dd sch kwargs = Inr op"
  shows "(''device'' \<notin> fst ` set kwargs \<longrightarrow>
            op_device op = PyStr dd \<and> spec_args (op_spec op) = (''device'', PyStr dd) # kwargs)
       \<and> (\<forall>v. (''device'', v) \<in> set kwargs \<longrightarrow>
            op_device op = v \<and> spec_args (op_spec op) = kwargs
            \<and> map_of (spec_args (op_spec op)) ''device'' = Some v)"
proof -
  have ns: "''self'' \<notin> fst ` set kwargs"
  proof
    assume "''self'' \<in> fst ` set kwargs"
    from Operator_init_self [OF this, of name dd sch] assms(2) show False by auto
  qed
  have ne: "PyList [] \<notin> snd ` set kwargs"
  proof
    assume "PyList [] \<in> snd ` set kwargs"
    from Operator_init_empty_list [OF ns this] assms(2) show False by simp
  qed
  note ok = Operator_init_ok [OF assms(1) ne ns, of name dd sch]
  show ?thesis
  proof (intro conjI impI allI)
    assume nk: "''device'' \<notin> fst ` set kwargs"
    then have "map_of kwargs ''device'' = None" by (simp add: map_of_eq_None_iff)
    with ok assms(2) nk show "op_device op = PyStr dd"
      and "spec_args (op_spec op) = (''device'', PyStr dd) # kwargs"
      by auto
  next
    fix v assume k: "(''device'', v) \<in> set kwargs"
    then have m: "map_of kwargs ''device'' = Some v" using assms(1) by simp
    from k have "''device'' \<in> fst ` set kwargs" by force
    with ok assms(2) m show "op_device op = v" and "spec_args (op_spec op) = kwargs"
      and "map_of (spec_args (op_spec op)) ''device'' = Some v"
      by auto
  qed
qed

theorem Operator_init_device_witness:
  "distinct (map fst [(''device'', PyStr ''gpu''), (''size'', PyInt 3)])
   \<and> distinct (map fst [(''size'', PyInt 3)])
   \<and> \<not> isl (Operator_init ''Resize'' ''cpu'' (ex_schema 0 1 1)
              [(''device'', PyStr ''gpu''), (''size'', PyInt 3)])
   \<and> \<not> isl (Operator_init ''Resize'' ''cpu'' (ex_schema 0 1 1) [(''size'', PyInt 3)])
   \<and> op_device (projr (Operator_init ''Resize'' ''cpu'' (ex_schema 0 1 1)
        [(''device'', PyStr ''gpu''), (''size'', PyInt 3)])) = PyStr ''gpu''
   \<and> spec_args (op_spec (projr (Operator_init ''Resize'' ''cpu'' (ex_schema 0 1 1)
        [(''device'', PyStr ''gpu''), (''size'', PyInt 3)])))
      = [(''device'', PyStr ''gpu''), (''size'', PyInt 3)]
   \<and> op_device (projr (Operator_init ''Resize'' ''cpu'' (ex_schema 0 1 1)
        [(''size'', PyInt 3)])) = PyStr ''cpu''
   \<and> spec_args (op_spec (projr (Operator_init ''Resize'' ''cpu'' (ex_schema 0 1 1)
        [(''size'', PyInt 3)])))
      = [(''device'', PyStr ''cpu''), (''size'', PyInt 3)]"
proof -
  let ?kw1 = "[(''device'', PyStr ''gpu''), (''size'', PyInt 3)]"
  let ?kw2 = "[(''size'', PyInt 3)]"
  let ?r1 = "Operator_init ''Resize'' ''cpu'' (ex_schema 0 1 1) ?kw1"
  let ?r2 = "Operator_init ''Resize'' ''cpu'' (ex_schema 0 1 1) ?kw2"
  have d1: "distinct (map fst ?kw1)" and d2: "distinct (map fst ?kw2)"
    by simp_all
  have n1: "\<not> isl ?r1" and n2: "\<not> isl ?r2"
    by (simp_all add: Operator_init_def bind_keywords_def)
  have r1: "?r1 = Inr (projr ?r1)" and r2: "?r2 = Inr (projr ?r2)"
    by (simp_all add: Operator_init_def bind_keywords_def)
  have k1: "(''device'', PyStr ''gpu'') \<in> set ?kw1" and k2: "''device'' \<notin> fst ` set ?kw2"
    by simp_all
  from Operator_init_device [OF d1 r1] k1
  have p1: "op_device (projr ?r1) = PyStr ''gpu'' \<and> spec_args (op_spec (projr ?r1)) = ?kw1"
    by blast
  from Operator_init_device [OF d2 r2] k2
  have p2: "op_device (projr ?r2) = PyStr ''cpu''
      \<and> spec_args (op_spec (projr ?r2)) = (''device'', PyStr ''cpu'') # ?kw2"
    by blast
  from d1 d2 n1 n2 p1 p2 show ?thesis by blast
qed

text \<open>
  The claim C5 as stated fails: a factory built with \<open>device = "gpu"\<close> has the argument
  \<open>device\<close> on its spec.
\<close>

theorem Operator_init_device_counterexample:
  "\<not> isl (Operator_init ''Resize'' ''cpu'' (ex_schema 0 1 1) [(''device'', PyStr ''gpu'')])
   \<and> op_device (projr (Operator_init ''Resize'' ''cpu'' (ex_schema 0 1 1)
        [(''device'', PyStr ''gpu'')])) = PyStr ''gpu''
   \<and> spec_args (op_spec (projr (Operator_init ''Resize'' ''cpu'' (ex_schema 0 1 1)
        [(''device'', PyStr ''gpu'')]))) = [(''device'', PyStr ''gpu'')]"
  by (simp add: Operator_init_def bind_keywords_def AddArg_def new_OpSpec_def)

text \<open>
  C8. The keyword arguments of a factory are a dictionary, and the interpreter binds them
  to \<open>**kwargs\<close> unless one is named \<open>self\<close>, the only named parameter of the constructor.
  The construction then fails with the error of the empty list argument as soon as one
  keyword argument, whatever its key, is the empty list. Otherwise it returns, and every
  keyword argument is on the spec with the value given.
\<close>

theorem Operator_init_list_arguments:
  assumes "distinct (map fst kwargs)" and "''self'' \<notin> fst ` set kwargs"
  shows "(PyList [] \<in> snd ` set kwargs \<longrightarrow>
            Operator_init name dd sch kwargs =
              Inl (RuntimeError ''List arguments need to have at least 1 element.''))
       \<and> (PyList [] \<notin> snd ` set kwargs \<longrightarrow>
            (\<exists>op. Operator_init name dd sch kwargs = Inr op
               \<and> (\<forall>k v. (k, v) \<in> set kwargs \<longrightarrow>
                     (k, v) \<in> set (spec_args (op_spec op))
                     \<and> map_of (spec_args (op_spec op)) k = Some v)))"
proof (intro conjI impI)
  assume "PyList [] \<in> snd ` set kwargs"
  then show "Operator_init name dd sch kwargs =
      Inl (RuntimeError ''List arguments need to have at least 1 element.'')"
    by (rule Operator_init_empty_list [OF assms(2)])
next
  assume ne: "PyList [] \<notin> snd ` set kwargs"
  define args where
    "args = (if ''device'' \<in> fst ` set kwargs then kwargs else (''device'', PyStr dd) # kwargs)"
  define op where
    "op = \<lparr>op_name = name, op_spec = (new_OpSpec name)\<lparr>spec_args := args\<rparr>, op_schema = sch,
            op_device = (case map_of kwargs ''device'' of Some v \<Rightarrow> v | None \<Rightarrow> PyStr dd)\<rparr>"
  have eq: "Operator_init name dd sch kwargs = Inr op"
    unfolding op_def args_def by (rule Operator_init_ok [OF assms(1) ne assms(2)])
  have sa: "spec_args (op_spec op) = args"
    by (simp add: op_def)
  have dist: "distinct (map fst args)"
  proof (cases "''device'' \<in> fst ` set kwargs")
    case True
    then show ?thesis using assms(1) by (simp add: args_def)
  next
    case False
    then show ?thesis using assms(1) by (simp add: args_def)
  qed
  have sub: "set kwargs \<subseteq> set args"
    by (cases "''device'' \<in> fst ` set kwargs") (auto simp add: args_def)
  have "(k, v) \<in> set args \<and> map_of args k = Some v" if "(k, v) \<in> set kwargs" for k v
  proof -
    from that sub have m: "(k, v) \<in> set args" by blast
    from dist m have "map_of args k = Some v" by (rule map_of_is_SomeI)
    with m show ?thesis by simp
  qed
  with eq sa show "\<exists>op. Operator_init name dd sch kwargs = Inr op
      \<and> (\<forall>k v. (k, v) \<in> set kwargs \<longrightarrow>
            (k, v) \<in> set (spec_args (op_spec op)) \<and> map_of (spec_args (op_spec op)) k = Some v)"
    by metis
qed

theorem Operator_init_list_arguments_witness:
  "distinct (map fst [(''my_list_arg'', PyList [])])
   \<and> distinct (map fst [(''my_list_arg'', PyList [PyInt 1])])
   \<and> ''self'' \<notin> fst ` set [(''my_list_arg'', PyList [])]
   \<and> ''self'' \<notin> fst ` set [(''my_list_arg'', PyList [PyInt 1])]
   \<and> Operator_init ''Resize'' ''cpu'' (ex_schema 0 1 1) [(''my_list_arg'', PyList [])]
        = Inl (RuntimeError ''List arguments need to have at least 1 element.'')
   \<and> \<not> isl (Operator_init ''Resize'' ''cpu'' (ex_schema 0 1 1)
              [(''my_list_arg'', PyList [PyInt 1])])
   \<and> map_of (spec_args (op_spec (projr (Operator_init ''Resize'' ''cpu'' (ex_schema 0 1 1)
        [(''my_list_arg'', PyList [PyInt 1])])))) ''my_list_arg'' = Some (PyList [PyInt 1])"
proof -
  have d0: "distinct (map fst [(''my_list_arg'', PyList [])])" by simp
  have d1: "distinct (map fst [(''my_list_arg'', PyList [PyInt 1])])" by simp
  have s0: "''self'' \<notin> fst ` set [(''my_list_arg'', PyList [])]" by simp
  have s1: "''self'' \<notin> fst ` set [(''my_list_arg'', PyList [PyInt 1])]" by simp
  from Operator_init_list_arguments [OF d0 s0, of "''Resize''" "''cpu''" "ex_schema 0 1 1"]
  have a: "Operator_init ''Resize'' ''cpu'' (ex_schema 0 1 1) [(''my_list_arg'', PyList [])]
        = Inl (RuntimeError ''List arguments need to have at least 1 element.'')"
    by simp
  from Operator_init_list_arguments [OF d1 s1, of "''Resize''" "''cpu''" "ex_schema 0 1 1"]
  obtain op where
    b: "Operator_init ''Resize'' ''cpu'' (ex_schema 0 1 1) [(''my_list_arg'', PyList [PyInt 1])]
          = Inr op"
    and c: "map_of (spec_args (op_spec op)) ''my_list_arg'' = Some (PyList [PyInt 1])"
    by auto
  show ?thesis
    using d0 d1 s0 s1 a b c by simp
qed

subsection \<open>The arity check of a call\<close>

lemma OperatorInstance_init_bound:
  assumes "''self'' \<notin> fst ` set kwargs" and "''inputs'' \<notin> fst ` set kwargs"
    and "''op'' \<notin> fst ` set kwargs"
  shows "bind_keywords ''__init__'' [''self'', ''inputs'', ''op''] kwargs = None"
  using assms by (simp add: bind_keywords_None)

lemma Operator_call_bound:
  "''self'' \<notin> fst ` set kwargs \<Longrightarrow> bind_keywords ''__call__'' [''self''] kwargs = None"
  by (simp add: bind_keywords_None)

lemma Operator_call_self:
  assumes "''self'' \<in> fst ` set kwargs"
  shows "\<exists>m. Operator_call self inputs kwargs c = (Inl (TypeError m), c)"
proof -
  from assms have "bind_keywords ''__call__'' [''self''] kwargs \<noteq> None"
    by (simp add: bind_keywords_None)
  then obtain e where e: "bind_keywords ''__call__'' [''self''] kwargs = Some e"
    by blast
  from bind_keywords_Some [OF e] e show ?thesis
    by (auto simp add: Operator_call_def)
qed

lemma Operator_call_arity:
  assumes "''self'' \<notin> fst ` set kwargs"
    and "int (length inputs) < MinNumInput (op_schema self)
         \<or> MaxNumInput (op_schema self) < int (length inputs)"
  shows "Operator_call self inputs kwargs c =
     (Inl (ValueError (msg_arity 20 (op_name self) (MinNumInput (op_schema self))
            (MaxNumInput (op_schema self)) (length inputs))), c)"
  using assms(2) Operator_call_bound [OF assms(1)] by (auto simp add: Operator_call_def)

lemma Operator_call_in_bounds:
  assumes "''self'' \<notin> fst ` set kwargs"
    and "MinNumInput (op_schema self) \<le> int (length inputs)"
    and "int (length inputs) \<le> MaxNumInput (op_schema self)"
  shows "Operator_call self inputs kwargs c =
     (case OperatorInstance_init inputs self kwargs c of
        (Inl e, c') \<Rightarrow> (Inl e, c')
      | (Inr op_instance, c') \<Rightarrow>
          (case generate_outputs op_instance of
             Inl e \<Rightarrow> (Inl e, c')
           | Inr inst \<Rightarrow>
               (Inr (case inst_outputs inst of
                       [t] \<Rightarrow> PyTensor t
                     | ts \<Rightarrow> PyList (map PyTensor ts), inst), c')))"
  using assms(2,3) Operator_call_bound [OF assms(1)] by (simp add: Operator_call_def)

lemma Operator_call_in_bounds_counter:
  assumes "''self'' \<notin> fst ` set kwargs" and "''inputs'' \<notin> fst ` set kwargs"
    and "''op'' \<notin> fst ` set kwargs"
    and "MinNumInput (op_schema self) \<le> int (length inputs)"
    and "int (length inputs) \<le> MaxNumInput (op_schema self)"
  shows "snd (Operator_call self inputs kwargs c) = Suc c"
proof -
  obtain r c' where i: "OperatorInstance_init inputs self kwargs c = (r, c')"
    by (cases "OperatorInstance_init inputs self kwargs c")
  with OperatorInstance_init_counter [OF OperatorInstance_init_bound [OF assms(1,2,3)],
      of inputs self c]
  have "c' = Suc c" by simp
  with i show ?thesis
    unfolding Operator_call_in_bounds [OF assms(1,4,5)]
    by (simp split: sum.splits)
qed

lemma Operator_call_failed_arity:
  assumes "int (length inputs) < MinNumInput (op_schema self)
         \<or> MaxNumInput (op_schema self) < int (length inputs)"
  shows "isl (fst (Operator_call self inputs kwargs c))"
    and "snd (Operator_call self inputs kwargs c) = c"
proof -
  have "isl (fst (Operator_call self inputs kwargs c))
      \<and> snd (Operator_call self inputs kwargs c) = c"
  proof (cases "''self'' \<in> fst ` set kwargs")
    case True
    from Operator_call_self [OF this, of self inputs c] show ?thesis by auto
  next
    case False
    from Operator_call_arity [OF this assms] show ?thesis by simp
  qed
  then show "isl (fst (Operator_call self inputs kwargs c))"
    and "snd (Operator_call self inputs kwargs c) = c"
    by simp_all
qed

text \<open>
  Calls that the interpreter refuses at binding never reach the body: \<open>op(op = v)\<close> passes
  the arity check and is refused when the constructor of the instance is called, before an
  id is taken; \<open>op(self = v)\<close> is refused before the arity check.
\<close>

lemma Operator_call_keyword_op:
  assumes "MinNumInput (op_schema self) \<le> int (length inputs)"
    and "int (length inputs) \<le> MaxNumInput (op_schema self)"
  shows "Operator_call self inputs [(''op'', v)] c
     = (Inl (TypeError (msg_multiple_values ''__init__'' ''op'')), c)"
  using assms
  by (simp add: Operator_call_def OperatorInstance_init_def bind_keywords_def)

lemma Operator_call_keyword_self:
  "Operator_call self inputs [(''self'', v)] c
     = (Inl (TypeError (msg_multiple_values ''__call__'' ''self'')), c)"
  by (simp add: Operator_call_def bind_keywords_def)

lemma Operator_init_keyword_self:
  "Operator_init name dd sch [(''self'', v)]
     = Inl (TypeError (msg_multiple_values ''__init__'' ''self''))"
  by (simp add: Operator_init_def bind_keywords_def)

text \<open>
  C4. Take a call of an operator whose keyword arguments bind: none is named \<open>self\<close>, which
  the interpreter refuses before the body runs. With fewer positional inputs than the
  minimum of the schema, or more than its maximum, the call raises the \<open>ValueError\<close> whose
  message holds the name of the operator, the two bounds and the number received; it is
  raised before an instance is constructed, so no id is taken. With a number of inputs
  inside the bounds the check passes: the outcome of the call is that of the constructor of
  the instance and of the output generation, and the constructor takes an id once its own
  keyword arguments bind.
\<close>

theorem Operator_call_arity_check:
  assumes "''self'' \<notin> fst ` set kwargs"
  shows "(int (length inputs) < MinNumInput (op_schema self)
      \<or> MaxNumInput (op_schema self) < int (length inputs) \<longrightarrow>
     Operator_call self inputs kwargs c =
       (Inl (ValueError (''Operator '' @ op_name self @ '' expects ['' @
               str_int (MinNumInput (op_schema self)) @ '','' @ nl 20 @
               str_int (MaxNumInput (op_schema self)) @ ''] inputs, but received '' @
               str_nat (length inputs))), c))
   \<and> (MinNumInput (op_schema self) \<le> int (length inputs)
      \<and> int (length inputs) \<le> MaxNumInput (op_schema self) \<longrightarrow>
     (\<forall>e c'. OperatorInstance_init inputs self kwargs c = (Inl e, c') \<longrightarrow>
        Operator_call self inputs kwargs c = (Inl e, c'))
     \<and> (\<forall>inst c' e. OperatorInstance_init inputs self kwargs c = (Inr inst, c')
           \<and> generate_outputs inst = Inl e \<longrightarrow>
           Operator_call self inputs kwargs c = (Inl e, Suc c))
     \<and> (\<forall>inst c' inst'. OperatorInstance_init inputs self kwargs c = (Inr inst, c')
           \<and> generate_outputs inst = Inr inst' \<longrightarrow>
           (\<exists>r. Operator_call self inputs kwargs c = (Inr (r, inst'), Suc c)))
     \<and> (''inputs'' \<notin> fst ` set kwargs \<and> ''op'' \<notin> fst ` set kwargs \<longrightarrow>
           snd (Operator_call self inputs kwargs c) = Suc c))"
proof (intro conjI impI allI)
  assume "int (length inputs) < MinNumInput (op_schema self)
      \<or> MaxNumInput (op_schema self) < int (length inputs)"
  from Operator_call_arity [OF assms this]
  show "Operator_call self inputs kwargs c =
       (Inl (ValueError (''Operator '' @ op_name self @ '' expects ['' @
               str_int (MinNumInput (op_schema self)) @ '','' @ nl 20 @
               str_int (MaxNumInput (op_schema self)) @ ''] inputs, but received '' @
               str_nat (length inputs))), c)"
    by (simp add: msg_arity_def)
next
  fix e c'
  assume b: "MinNumInput (op_schema self) \<le> int (length inputs)
      \<and> int (length inputs) \<le> MaxNumInput (op_schema self)"
    and "OperatorInstance_init inputs self kwargs c = (Inl e, c')"
  then show "Operator_call self inputs kwargs c = (Inl e, c')"
    by (simp add: Operator_call_in_bounds [OF assms])
next
  fix inst c' e
  assume b: "MinNumInput (op_schema self) \<le> int (length inputs)
      \<and> int (length inputs) \<le> MaxNumInput (op_schema self)"
    and i: "OperatorInstance_init inputs self kwargs c = (Inr inst, c')
      \<and> generate_outputs inst = Inl e"
  then have "c' = Suc c" using OperatorInstance_init_fresh(2) by blast
  with b i show "Operator_call self inputs kwargs c = (Inl e, Suc c)"
    by (simp add: Operator_call_in_bounds [OF assms])
next
  fix inst c' inst'
  assume b: "MinNumInput (op_schema self) \<le> int (length inputs)
      \<and> int (length inputs) \<le> MaxNumInput (op_schema self)"
    and i: "OperatorInstance_init inputs self kwargs c = (Inr inst, c')
      \<and> generate_outputs inst = Inr inst'"
  then have "c' = Suc c" using OperatorInstance_init_fresh(2) by blast
  with b i show "\<exists>r. Operator_call self inputs kwargs c = (Inr (r, inst'), Suc c)"
    by (simp add: Operator_call_in_bounds [OF assms])
next
  assume b: "MinNumInput (op_schema self) \<le> int (length inputs)
      \<and> int (length inputs) \<le> MaxNumInput (op_schema self)"
    and k: "''inputs'' \<notin> fst ` set kwargs \<and> ''op'' \<notin> fst ` set kwargs"
  then show "snd (Operator_call self inputs kwargs c) = Suc c"
    using assms by (simp add: Operator_call_in_bounds_counter)
qed

theorem Operator_call_arity_check_witness:
  "''self'' \<notin> fst ` set ([]::(string \<times> pyval) list)
   \<and> Operator_call (ex_op (PyStr ''cpu'') (ex_schema 1 2 1)) [] [] 5 =
     (Inl (ValueError (''Operator Resize expects [1,'' @ nl 20 @ ''2] inputs, but received 0'')), 5)
   \<and> snd (Operator_call (ex_op (PyStr ''cpu'') (ex_schema 0 2 1)) [] [] 5) = 6
   \<and> fst (Operator_call (ex_op (PyStr ''cpu'') (ex_schema 0 2 1)) [] [] 5) =
       Inr (PyTensor \<lparr>tr_name = ''Resize_id_5_output_0'', tr_device = ''cpu'', tr_source = 5\<rparr>,
            projr (generate_outputs (projr (fst (OperatorInstance_init []
              (ex_op (PyStr ''cpu'') (ex_schema 0 2 1)) [] 5)))))"
proof -
  let ?bad = "ex_op (PyStr ''cpu'') (ex_schema 1 2 1)"
  let ?ok = "ex_op (PyStr ''cpu'') (ex_schema 0 2 1)"
  let ?i = "projr (fst (OperatorInstance_init [] ?ok [] 5))"
  have s: "''self'' \<notin> fst ` set ([]::(string \<times> pyval) list)"
    by simp
  have a: "int (length ([]::pyval list)) < MinNumInput (op_schema ?bad)
      \<or> MaxNumInput (op_schema ?bad) < int (length ([]::pyval list))"
    by (simp add: ex_defs)
  have b: "MinNumInput (op_schema ?ok) \<le> int (length ([]::pyval list))
      \<and> int (length ([]::pyval list)) \<le> MaxNumInput (op_schema ?ok)"
    by (simp add: ex_defs)
  have i: "OperatorInstance_init [] ?ok [] 5 = (Inr ?i, Suc 5)"
    by (simp add: OperatorInstance_init_def OpCounter_def add_inputs_def)
  have g: "generate_outputs ?i = Inr (projr (generate_outputs ?i))"
    by (simp add: generate_outputs_def OperatorInstance_init_def OpCounter_def add_inputs_def
        ex_defs)
  note t = Operator_call_arity_check [OF s]
  from t [where inputs = "[]" and self = ?bad and c = 5] a
  have 1: "Operator_call ?bad [] [] 5 =
     (Inl (ValueError (''Operator Resize expects [1,'' @ nl 20 @ ''2] inputs, but received 0'')), 5)"
    by (simp add: ex_defs str_eval)
  from t [where inputs = "[]" and self = ?ok and c = 5] b i g
  obtain r where 2: "Operator_call ?ok [] [] 5 = (Inr (r, projr (generate_outputs ?i)), Suc 5)"
    by blast
  have 3: "Operator_call ?ok [] [] 5 =
      (Inr (PyTensor \<lparr>tr_name = ''Resize_id_5_output_0'', tr_device = ''cpu'', tr_source = 5\<rparr>,
            projr (generate_outputs ?i)), Suc 5)"
    by (simp add: Operator_call_def OperatorInstance_init_def OpCounter_def add_inputs_def
        generate_outputs_def output_device_def output_name_def append_output_def AddOutput_def
        Let_def ex_defs str_eval)
  from s 1 2 3 show ?thesis by simp
qed

text \<open>
  C10. A call that fails the arity check leaves the counter as it was, so the instance that
  is constructed next gets the id that it would have got without the failed call. A failure
  raised during the construction of an instance is different: once the arguments of the
  constructor are bound (no keyword is named \<open>self\<close>, \<open>inputs\<close> or \<open>op\<close>) its body takes
  the id before anything can fail, so the id is consumed, also when the constructor was
  reached through a call, and the instance constructed next gets the following one.
\<close>

theorem failed_calls_and_ids:
  "(int (length inputs) < MinNumInput (op_schema self)
      \<or> MaxNumInput (op_schema self) < int (length inputs) \<longrightarrow>
     isl (fst (Operator_call self inputs kwargs c))
     \<and> snd (Operator_call self inputs kwargs c) = c
     \<and> (\<forall>inputs' op' kwargs' inst c'.
           OperatorInstance_init inputs' op' kwargs' (snd (Operator_call self inputs kwargs c))
             = (Inr inst, c') \<longrightarrow> inst_id inst = c))
   \<and> (isl (fst (OperatorInstance_init inputs self kwargs c))
      \<and> ''self'' \<notin> fst ` set kwargs \<and> ''inputs'' \<notin> fst ` set kwargs
      \<and> ''op'' \<notin> fst ` set kwargs \<longrightarrow>
     snd (OperatorInstance_init inputs self kwargs c) = Suc c
     \<and> (MinNumInput (op_schema self) \<le> int (length inputs)
          \<and> int (length inputs) \<le> MaxNumInput (op_schema self) \<longrightarrow>
          isl (fst (Operator_call self inputs kwargs c))
          \<and> snd (Operator_call self inputs kwargs c) = Suc c)
     \<and> (\<forall>inputs' op' kwargs' inst c'.
           OperatorInstance_init inputs' op' kwargs'
               (snd (OperatorInstance_init inputs self kwargs c))
             = (Inr inst, c') \<longrightarrow> inst_id inst = Suc c))"
proof (intro conjI impI allI)
  assume a: "int (length inputs) < MinNumInput (op_schema self)
      \<or> MaxNumInput (op_schema self) < int (length inputs)"
  show "isl (fst (Operator_call self inputs kwargs c))"
    and s: "snd (Operator_call self inputs kwargs c) = c"
    by (simp_all add: Operator_call_failed_arity [OF a])
  fix inputs' op' kwargs' inst c'
  assume "OperatorInstance_init inputs' op' kwargs' (snd (Operator_call self inputs kwargs c))
             = (Inr inst, c')"
  then show "inst_id inst = c"
    unfolding s by (rule OperatorInstance_init_fresh(1))
next
  assume f: "isl (fst (OperatorInstance_init inputs self kwargs c))
      \<and> ''self'' \<notin> fst ` set kwargs \<and> ''inputs'' \<notin> fst ` set kwargs
      \<and> ''op'' \<notin> fst ` set kwargs"
  then have k: "''self'' \<notin> fst ` set kwargs" "''inputs'' \<notin> fst ` set kwargs"
    "''op'' \<notin> fst ` set kwargs"
    by simp_all
  show s: "snd (OperatorInstance_init inputs self kwargs c) = Suc c"
    by (rule OperatorInstance_init_counter [OF OperatorInstance_init_bound [OF k]])
  {
    fix inputs' op' kwargs' inst c'
    assume "OperatorInstance_init inputs' op' kwargs'
               (snd (OperatorInstance_init inputs self kwargs c)) = (Inr inst, c')"
    then show "inst_id inst = Suc c"
      unfolding s by (rule OperatorInstance_init_fresh(1))
  }
  assume b: "MinNumInput (op_schema self) \<le> int (length inputs)
          \<and> int (length inputs) \<le> MaxNumInput (op_schema self)"
  then show "snd (Operator_call self inputs kwargs c) = Suc c"
    using k by (simp add: Operator_call_in_bounds_counter)
  obtain e c' where "OperatorInstance_init inputs self kwargs c = (Inl e, c')"
    using f by (cases "OperatorInstance_init inputs self kwargs c") (auto simp add: isl_def)
  then show "isl (fst (Operator_call self inputs kwargs c))"
    using b k(1) by (simp add: Operator_call_in_bounds)
qed

theorem failed_calls_and_ids_witness:
  "isl (fst (Operator_call (ex_op (PyStr ''cpu'') (ex_schema 1 2 1)) [] [] 5))
   \<and> snd (Operator_call (ex_op (PyStr ''cpu'') (ex_schema 1 2 1)) [] [] 5) = 5
   \<and> fst (OperatorInstance_init [PyInt 3] (ex_op (PyStr ''cpu'') (ex_schema 1 2 1)) [] 5)
       = Inl (TypeError (msg_tensor_or_list ''int''))
   \<and> snd (OperatorInstance_init [PyInt 3] (ex_op (PyStr ''cpu'') (ex_schema 1 2 1)) [] 5) = 6
   \<and> isl (fst (Operator_call (ex_op (PyStr ''cpu'') (ex_schema 1 2 1)) [PyInt 3] [] 5))
   \<and> snd (Operator_call (ex_op (PyStr ''cpu'') (ex_schema 1 2 1)) [PyInt 3] [] 5) = 6"
proof -
  let ?op = "ex_op (PyStr ''cpu'') (ex_schema 1 2 1)"
  have a: "int (length ([]::pyval list)) < MinNumInput (op_schema ?op)
      \<or> MaxNumInput (op_schema ?op) < int (length ([]::pyval list))"
    by (simp add: ex_defs)
  have b: "MinNumInput (op_schema ?op) \<le> int (length [PyInt 3])
      \<and> int (length [PyInt 3]) \<le> MaxNumInput (op_schema ?op)"
    by (simp add: ex_defs)
  have e: "fst (OperatorInstance_init [PyInt 3] ?op [] 5)
      = Inl (TypeError (msg_tensor_or_list ''int''))"
    by (simp add: OperatorInstance_init_def OpCounter_def add_inputs_def)
  then have f: "isl (fst (OperatorInstance_init [PyInt 3] ?op [] 5))"
    by simp
  have k: "''self'' \<notin> fst ` set ([]::(string \<times> pyval) list)"
    "''inputs'' \<notin> fst ` set ([]::(string \<times> pyval) list)"
    "''op'' \<notin> fst ` set ([]::(string \<times> pyval) list)"
    by simp_all
  from failed_calls_and_ids [of "[]" ?op "[]" 5] a
  have 1: "isl (fst (Operator_call ?op [] [] 5)) \<and> snd (Operator_call ?op [] [] 5) = 5"
    by blast
  from failed_calls_and_ids [of "[PyInt 3]" ?op "[]" 5] b f k
  have 2: "snd (OperatorInstance_init [PyInt 3] ?op [] 5) = Suc 5
      \<and> isl (fst (Operator_call ?op [PyInt 3] [] 5))
      \<and> snd (Operator_call ?op [PyInt 3] [] 5) = Suc 5"
    by blast
  from 1 2 e show ?thesis by simp
qed

subsection \<open>The decimal rendering is injective\<close>







subsection \<open>The names of the outputs determine the id\<close>




subsection \<open>The counter never decreases\<close>

lemma Operator_call_counter: "c \<le> snd (Operator_call self inputs kwargs c)"
proof (cases "bind_keywords ''__call__'' [''self''] kwargs")
  case (Some e)
  then show ?thesis by (simp add: Operator_call_def)
next
  case None
  obtain r c' where i: "OperatorInstance_init inputs self kwargs c = (r, c')"
    by (cases "OperatorInstance_init inputs self kwargs c")
  with OperatorInstance_init_mono [of c inputs self kwargs] have "c \<le> c'" by simp
  with i None show ?thesis
    by (simp add: Operator_call_def split: sum.splits)
qed

lemma TFRecordReader_call_counter: "c \<le> snd (TFRecordReader_call self inputs kwargs c)"
proof (cases "bind_keywords ''__call__'' [''self''] kwargs")
  case (Some e)
  then show ?thesis by (simp add: TFRecordReader_call_def)
next
  case None
  obtain r c' where i: "OperatorInstance_init inputs (TFRecordReader_op self) kwargs c = (r, c')"
    by (cases "OperatorInstance_init inputs (TFRecordReader_op self) kwargs c")
  with OperatorInstance_init_mono [of c inputs "TFRecordReader_op self" kwargs]
  have "c \<le> c'" by simp
  with i None show ?thesis
    by (simp add: TFRecordReader_call_def split: sum.splits prod.splits)
qed

subsection \<open>The outputs of two instances\<close>

lemma add_features_id [simp]:
  "inst_id (fst (add_features dev i feats (inst, outs, ns, fs))) = inst_id inst"
  by (induction feats arbitrary: i inst outs ns fs) (auto simp add: append_output_def Let_def)




text \<open>
  The two kinds of call build an instance with the constructor and mint its outputs once:
  \<open>Operator.__call__\<close> by one call of \<open>generate_outputs\<close>, \<open>TFRecordReader.__call__\<close> by its
  loop over the features.
\<close>

lemma Operator_call_instance:
  assumes "Operator_call self inputs kwargs c = (Inr (r, out), c')"
  shows "\<exists>i. OperatorInstance_init inputs self kwargs c = (Inr i, c')
     \<and> generate_outputs i = Inr out"
proof -
  have bound: "bind_keywords ''__call__'' [''self''] kwargs = None"
    using assms by (cases "bind_keywords ''__call__'' [''self''] kwargs")
      (simp_all add: Operator_call_def)
  obtain x c0 where i: "OperatorInstance_init inputs self kwargs c = (x, c0)"
    by (cases "OperatorInstance_init inputs self kwargs c")
  with assms bound show ?thesis
    by (auto simp add: Operator_call_def split: if_splits sum.splits)
qed

lemma TFRecordReader_call_instance:
  assumes "TFRecordReader_call self inputs kwargs c = (Inr (d, out), c')"
  shows "\<exists>i. OperatorInstance_init inputs (TFRecordReader_op self) kwargs c = (Inr i, c')
     \<and> inst_id out = inst_id i
     \<and> inst_outputs out = inst_outputs
          (fst (add_features (tf_device self) 0 (tf_features self) (i, [], [], [])))"
proof -
  have bound: "bind_keywords ''__call__'' [''self''] kwargs = None"
    using assms by (cases "bind_keywords ''__call__'' [''self''] kwargs")
      (simp_all add: TFRecordReader_call_def)
  obtain x c0 where i: "OperatorInstance_init inputs (TFRecordReader_op self) kwargs c = (x, c0)"
    by (cases "OperatorInstance_init inputs (TFRecordReader_op self) kwargs c")
  with assms bound obtain i0 where x: "x = Inr i0" and c0: "c0 = c'"
    by (cases x) (auto simp add: TFRecordReader_call_def split: if_splits prod.splits)
  let ?st = "add_features (tf_device self) 0 (tf_features self) (i0, [], [], [])"
  obtain inst outs ns fs where st: "?st = (inst, outs, ns, fs)"
    by (cases ?st)
  from assms bound i x st have out: "inst_outputs out = inst_outputs inst"
    and oid: "inst_id out = inst_id inst"
    by (auto simp add: TFRecordReader_call_def split: if_splits prod.splits)
  from st have "inst = fst ?st" by simp
  with out oid i x c0 show ?thesis
    by (simp only: add_features_id) simp
qed




subsection \<open>The reader with named outputs\<close>

lemma AddArg_lookup: "map_of (spec_args (AddArg k v s)) = (map_of (spec_args s))(k \<mapsto> v)"
  by (simp add: AddArg_def update_conv')

lemma AddArg_fields [simp]:
  "spec_name (AddArg k v s) = spec_name s"
  "spec_inputs (AddArg k v s) = spec_inputs s"
  "spec_argument_inputs (AddArg k v s) = spec_argument_inputs s"
  "spec_outputs (AddArg k v s) = spec_outputs s"
  by (simp_all add: AddArg_def)

text \<open>
  C9. A reader whose features are \<open>{"image": f1, "label": f2}\<close>, called with a number of
  inputs inside the bounds of its schema and with inputs and keyword arguments that the
  constructor of the instance accepts, returns the mapping of \<open>image\<close> and \<open>label\<close> to two
  different handles, named after the kind \<open>_TFRecordReader\<close>, the id of the instance and the
  indices 0 and 1. The handles are the outputs of the instance and of its spec, and the
  spec holds the arguments \<open>feature_names = ["image", "label"]\<close> and \<open>features = [f1, f2]\<close>.
\<close>

theorem TFRecordReader_call_named_outputs:
  assumes "tf_features self = [(''image'', f1), (''label'', f2)]"
    and "MinNumInput (tf_schema self) \<le> int (length inputs)"
    and "int (length inputs) \<le> MaxNumInput (tf_schema self)"
    and "OperatorInstance_init inputs (TFRecordReader_op self) kwargs c = (Inr inst0, c')"
  shows "\<exists>inst h0 h1.
       TFRecordReader_call self inputs kwargs c
         = (Inr ([(''image'', h0), (''label'', h1)], inst), Suc c)
     \<and> h0 = \<lparr>tr_name = ''_TFRecordReader_id_'' @ str_nat c @ ''_output_0'',
              tr_device = tf_device self, tr_source = c\<rparr>
     \<and> h1 = \<lparr>tr_name = ''_TFRecordReader_id_'' @ str_nat c @ ''_output_1'',
              tr_device = tf_device self, tr_source = c\<rparr>
     \<and> h0 \<noteq> h1 \<and> tr_name h0 \<noteq> tr_name h1
     \<and> inst_id inst = c
     \<and> inst_outputs inst = [h0, h1]
     \<and> spec_outputs (inst_spec inst) = spec_outputs (inst_spec inst0) @
          [(tr_name h0, tf_device self), (tr_name h1, tf_device self)]
     \<and> map_of (spec_args (inst_spec inst)) ''feature_names''
          = Some (PyList [PyStr ''image'', PyStr ''label''])
     \<and> map_of (spec_args (inst_spec inst)) ''features'' = Some (PyList [f1, f2])"
proof -
  note fr = OperatorInstance_init_fresh [OF assms(4)]
  have s0: "str_nat 0 = ''0''" and s1: "str_nat (Suc 0) = ''1''"
    by (simp_all add: str_eval)
  have bc: "bind_keywords ''__call__'' [''self''] kwargs = None"
    using fr(5) by (simp add: bind_keywords_None)
  show ?thesis
    using assms fr(1-4) bc
    by (simp add: TFRecordReader_call_def output_name_def append_output_def AddOutput_def
        AddArg_lookup Let_def s0 s1)
qed


theorem TFRecordReader_call_named_outputs_witness:
  "\<not> isl (TFRecordReader_init (ex_schema 0 0 0) (PyStr ''train.rec'') (PyStr ''train.idx'')
       [(''image'', PyObject ''Feature''), (''label'', PyInt 7)] [])
   \<and> tf_features (projr (TFRecordReader_init (ex_schema 0 0 0) (PyStr ''train.rec'') (PyStr ''train.idx'')
       [(''image'', PyObject ''Feature''), (''label'', PyInt 7)] []))
     = [(''image'', PyObject ''Feature''), (''label'', PyInt 7)]
   \<and> \<not> isl (fst (OperatorInstance_init [] (TFRecordReader_op
        (projr (TFRecordReader_init (ex_schema 0 0 0) (PyStr ''train.rec'') (PyStr ''train.idx'')
           [(''image'', PyObject ''Feature''), (''label'', PyInt 7)] []))) [] 4))
   \<and> map_prod id inst_id (projr (fst (TFRecordReader_call
        (projr (TFRecordReader_init (ex_schema 0 0 0) (PyStr ''train.rec'') (PyStr ''train.idx'')
           [(''image'', PyObject ''Feature''), (''label'', PyInt 7)] [])) [] [] 4)))
     = ([(''image'', \<lparr>tr_name = ''_TFRecordReader_id_4_output_0'', tr_device = ''cpu'',
                       tr_source = 4\<rparr>),
         (''label'', \<lparr>tr_name = ''_TFRecordReader_id_4_output_1'', tr_device = ''cpu'',
                       tr_source = 4\<rparr>)], 4)
   \<and> spec_args (inst_spec (snd (projr (fst (TFRecordReader_call
        (projr (TFRecordReader_init (ex_schema 0 0 0) (PyStr ''train.rec'') (PyStr ''train.idx'')
           [(''image'', PyObject ''Feature''), (''label'', PyInt 7)] [])) [] [] 4)))))
     = [(''path'', PyList [PyStr ''train.rec'']), (''index_path'', PyList [PyStr ''train.idx'']),
        (''feature_names'', PyList [PyStr ''image'', PyStr ''label'']),
        (''features'', PyList [PyObject ''Feature'', PyInt 7])]"
proof -
  let ?self = "projr (TFRecordReader_init (ex_schema 0 0 0) (PyStr ''train.rec'')
       (PyStr ''train.idx'') [(''image'', PyObject ''Feature''), (''label'', PyInt 7)] [])"
  let ?i0 = "projr (fst (OperatorInstance_init [] (TFRecordReader_op ?self) [] 4))"
  have r: "\<not> isl (TFRecordReader_init (ex_schema 0 0 0) (PyStr ''train.rec'')
       (PyStr ''train.idx'') [(''image'', PyObject ''Feature''), (''label'', PyInt 7)] [])"
    by (simp add: TFRecordReader_init_def)
  have f: "tf_features ?self = [(''image'', PyObject ''Feature''), (''label'', PyInt 7)]"
    by (simp add: TFRecordReader_init_def)
  have lo: "MinNumInput (tf_schema ?self) \<le> int (length ([]::pyval list))"
    and hi: "int (length ([]::pyval list)) \<le> MaxNumInput (tf_schema ?self)"
    by (simp_all add: TFRecordReader_init_def ex_defs)
  have i: "OperatorInstance_init [] (TFRecordReader_op ?self) [] 4 = (Inr ?i0, 5)"
    by (simp add: OperatorInstance_init_def OpCounter_def add_inputs_def)
  have ni: "\<not> isl (fst (OperatorInstance_init [] (TFRecordReader_op ?self) [] 4))"
    by (simp add: OperatorInstance_init_def OpCounter_def add_inputs_def)
  have args: "spec_args (inst_spec (snd (projr (fst (TFRecordReader_call ?self [] [] 4)))))
     = [(''path'', PyList [PyStr ''train.rec'']), (''index_path'', PyList [PyStr ''train.idx'']),
        (''feature_names'', PyList [PyStr ''image'', PyStr ''label'']),
        (''features'', PyList [PyObject ''Feature'', PyInt 7])]"
    by (simp add: TFRecordReader_call_def TFRecordReader_init_def TFRecordReader_op_def
        OperatorInstance_init_def OpCounter_def add_inputs_def append_output_def AddOutput_def
        AddArg_def as_list_def Let_def ex_defs)
  from TFRecordReader_call_named_outputs [OF f lo hi i]
  have "map_prod id inst_id (projr (fst (TFRecordReader_call ?self [] [] 4)))
     = ([(''image'', \<lparr>tr_name = ''_TFRecordReader_id_4_output_0'', tr_device = ''cpu'',
                       tr_source = 4\<rparr>),
         (''label'', \<lparr>tr_name = ''_TFRecordReader_id_4_output_1'', tr_device = ''cpu'',
                       tr_source = 4\<rparr>)], 4)"
    by (auto simp add: TFRecordReader_init_def str_eval)
  with r f ni args show ?thesis by blast
qed

subsection \<open>Input sets\<close>

lemma input_sets_interleaved:
  "OperatorInstance_init
       [PyList [PyTensor a1, PyTensor a2], PyList [PyTensor b1, PyTensor b2]] op [] c
     = (Inr \<lparr>inst_id = c,
            inst_inputs = [PyList [PyTensor a1, PyTensor a2], PyList [PyTensor b1, PyTensor b2]],
            inst_outputs = [], inst_op = op,
            inst_spec = AddArg ''num_input_sets'' (PyInt 2)
              ((op_spec op)\<lparr>spec_inputs := spec_inputs (op_spec op) @
                 [(tr_name a1, tr_device a1), (tr_name b1, tr_device b1),
                  (tr_name a2, tr_device a2), (tr_name b2, tr_device b2)]\<rparr>),
            inst_name = PyStr (''__'' @ op_name op @ ''_'' @ str_nat c)\<rparr>, Suc c)"
  by (simp add: OperatorInstance_init_def OpCounter_def add_inputs_def AddInput_def upt_rec)

lemma input_sets_mismatch_example:
  "OperatorInstance_init
       [PyList [PyTensor a1, PyTensor a2], PyList [PyTensor b1]] op [] c
     = (Inl (RuntimeError (msg_same_length 2 1)), Suc c)"
  by (simp add: OperatorInstance_init_def OpCounter_def add_inputs_def AddInput_def upt_rec
      Let_def numeral_2_eq_2)

lemma add_input_set_row_mismatch:
  assumes "\<forall>x \<in> set inputs. \<exists>xs. x = PyList xs \<and> (\<forall>y \<in> set xs. \<exists>t. y = PyTensor t)"
    and "i < len"
    and "\<exists>xs. PyList xs \<in> set inputs \<and> length xs \<noteq> len"
  shows "\<exists>got. got \<noteq> len
     \<and> add_input_set_row len i inputs s = Inl (RuntimeError (msg_same_length len got))"
  using assms
proof (induction inputs arbitrary: s)
  case Nil
  then show ?case by simp
next
  case (Cons x rest)
  from Cons.prems(1) obtain xs where x: "x = PyList xs"
    and ts: "\<forall>y \<in> set xs. \<exists>t. y = PyTensor t"
    by auto
  show ?case
  proof (cases "length xs = len")
    case False
    then show ?thesis using x by auto
  next
    case True
    with Cons.prems(2) have "xs ! i \<in> set xs" by simp
    with ts obtain t where t: "xs ! i = PyTensor t" by blast
    from True x Cons.prems(3) have "\<exists>ys. PyList ys \<in> set rest \<and> length ys \<noteq> len"
      by auto
    with Cons.IH [of "AddInput (tr_name t) (tr_device t) s"] Cons.prems(1,2)
    obtain got where "got \<noteq> len"
      and "add_input_set_row len i rest (AddInput (tr_name t) (tr_device t) s)
             = Inl (RuntimeError (msg_same_length len got))"
      by auto
    with True x t show ?thesis by auto
  qed
qed

text \<open>
  Lists of handles of different lengths are refused with the error of the lengths whenever
  the first list is not empty.
\<close>

lemma input_sets_length_mismatch:
  assumes "\<forall>x \<in> set inputs. \<exists>xs. x = PyList xs \<and> (\<forall>y \<in> set xs. \<exists>t. y = PyTensor t)"
    and "inputs = PyList first # rest" and "first \<noteq> []"
    and "\<exists>xs. PyList xs \<in> set rest \<and> length xs \<noteq> length first"
    and "bind_keywords ''__init__'' [''self'', ''inputs'', ''op''] kwargs = None"
  shows "\<exists>got. got \<noteq> length first
     \<and> OperatorInstance_init inputs op kwargs c
         = (Inl (RuntimeError (msg_same_length (length first) got)), Suc c)"
proof -
  from assms(3) have pos: "0 < length first" by simp
  from assms(2,4) have "\<exists>xs. PyList xs \<in> set inputs \<and> length xs \<noteq> length first"
    by auto
  from add_input_set_row_mismatch [OF assms(1) pos this, of "op_spec op"]
  obtain got where g: "got \<noteq> length first"
    and r: "add_input_set_row (length first) 0 inputs (op_spec op)
              = Inl (RuntimeError (msg_same_length (length first) got))"
    by blast
  from pos have "[0..<length first] = 0 # [Suc 0..<length first]"
    by (simp add: upt_rec)
  with r have "add_input_sets (length first) [0..<length first] inputs (op_spec op)
      = Inl (RuntimeError (msg_same_length (length first) got))"
    by simp
  then have "OperatorInstance_init inputs op kwargs c
      = (Inl (RuntimeError (msg_same_length (length first) got)), Suc c)"
    using assms(2,5) by (simp add: OperatorInstance_init_def OpCounter_def add_inputs_def)
  with g show ?thesis by blast
qed

text \<open>
  C2. The lengths of the lists are compared inside the loop over the indices of the first
  list. When the first list is empty that loop has no round: the inputs \<open>[[], [b1]]\<close>, two
  lists of different lengths, are accepted, no input is recorded, and \<open>num_input_sets = 0\<close>
  is put on the spec.
\<close>

theorem input_sets_empty_first_list:
  "OperatorInstance_init [PyList [], PyList [PyTensor b1]] op [] c
     = (Inr \<lparr>inst_id = c, inst_inputs = [PyList [], PyList [PyTensor b1]],
             inst_outputs = [], inst_op = op,
             inst_spec = AddArg ''num_input_sets'' (PyInt 0) (op_spec op),
             inst_name = PyStr (''__'' @ op_name op @ ''_'' @ str_nat c)\<rparr>, Suc c)"
  by (simp add: OperatorInstance_init_def OpCounter_def add_inputs_def)

subsection \<open>Argument inputs\<close>

lemma add_argument_inputs_handles:
  assumes "\<forall>(k, v) \<in> set kwargs. k \<noteq> ''name'' \<longrightarrow> (\<exists>t. v = PyTensor t)"
  shows "add_argument_inputs inp kwargs (s, ins) =
     Inr (s\<lparr>spec_argument_inputs := spec_argument_inputs s @
              map (\<lambda>(k, v). (k, case v of PyTensor t \<Rightarrow> tr_name t | _ \<Rightarrow> []))
                (filter (\<lambda>(k, v). k \<noteq> ''name'') kwargs)\<rparr>,
          ins @ map snd (filter (\<lambda>(k, v). k \<noteq> ''name'') kwargs))"
  using assms
proof (induction kwargs arbitrary: s ins)
  case Nil
  then show ?case by simp
next
  case (Cons p kwargs)
  obtain k v where p: "p = (k, v)" by (cases p)
  show ?case
  proof (cases "k = ''name''")
    case True
    with Cons p show ?thesis by simp
  next
    case False
    with Cons.prems p obtain t where t: "v = PyTensor t" by auto
    from Cons.prems have "\<forall>(k, v) \<in> set kwargs. k \<noteq> ''name'' \<longrightarrow> (\<exists>t. v = PyTensor t)"
      by simp
    from Cons.IH [OF this] False p t show ?thesis
      by (simp add: AddArgumentInput_def)
  qed
qed

lemma add_argument_inputs_bound:
  assumes "\<exists>(k, v) \<in> set kwargs. k \<noteq> ''name'' \<and> (\<forall>t. v \<noteq> PyTensor t)"
  shows "add_argument_inputs (Some x) kwargs acc
     = Inl (TypeError (msg_expected_tensor 28 (type_name x)))"
  using assms
proof (induction kwargs arbitrary: acc)
  case Nil
  then show ?case by simp
next
  case (Cons p kwargs)
  obtain k v where p: "p = (k, v)" by (cases p)
  obtain s ins where acc: "acc = (s, ins)" by (cases acc)
  show ?case
  proof (cases "k \<noteq> ''name'' \<and> (\<forall>t. v \<noteq> PyTensor t)")
    case True
    then show ?thesis using p acc by (cases v) simp_all
  next
    case False
    with Cons.prems p have "\<exists>(k, v) \<in> set kwargs. k \<noteq> ''name'' \<and> (\<forall>t. v \<noteq> PyTensor t)"
      by auto
    from Cons.IH [OF this] False p acc show ?thesis
      by (cases v) auto
  qed
qed

text \<open>
  C7. The message of the \<open>TypeError\<close> for a keyword argument that is not a handle is
  formatted from \<open>inp\<close>, the variable of the loops over the positional inputs. Without
  positional inputs that variable is not bound: the call \<open>op(x = 5)\<close> does not raise the
  \<open>TypeError\<close> but the \<open>UnboundLocalError\<close> of the interpreter.
\<close>

theorem argument_input_no_positional:
  "OperatorInstance_init [] op [(''x'', PyInt 5)] c = (Inl (UnboundLocalError ''inp''), Suc c)"
  by (simp add: OperatorInstance_init_def bind_keywords_def OpCounter_def add_inputs_def)

end
